theory Spec2Isabelle
  imports Main "HOL-Library.Word"
begin

unbundle bit_operations_syntax

section \<open>Platform types and constants\<close>

text \<open>
  The file \<^verbatim>\<open>source/os/windows/named-pipe.cpp\<close> is written against the Windows SDK
  headers and against \<^verbatim>\<open>named-pipe.hpp\<close>. The SDK's scalar types are modelled with
  their widths: \<^verbatim>\<open>DWORD\<close> is a 32-bit word, \<^verbatim>\<open>HANDLE\<close> a pointer-sized word whose
  null value is 0, \<^verbatim>\<open>wchar_t\<close> a 16-bit word. \<^verbatim>\<open>size_t\<close> values are only compared and
  stored, never computed with, and are natural numbers.
\<close>

type_synonym DWORD = "32 word"
type_synonym HANDLE = "64 word"
type_synonym wstring = "16 word list"

definition NULL :: HANDLE where
  "NULL = 0"

text \<open>
  Modelled from the spec: the constants below are macros of the Windows SDK headers, which
  are not part of the repository's sources; the spec names them (``platform max path
  length'', ``unlimited sentinel'', ``broken pipe'', ``more data'', ``queued'') and the
  values are the ones of the SDK.
\<close>

definition MAX_PATH :: nat where
  "MAX_PATH = 260"

definition PIPE_UNLIMITED_INSTANCES :: nat where
  "PIPE_UNLIMITED_INSTANCES = 255"

definition ERROR_SUCCESS :: DWORD where
  "ERROR_SUCCESS = 0"

definition ERROR_BROKEN_PIPE :: DWORD where
  "ERROR_BROKEN_PIPE = 109"

definition ERROR_MORE_DATA :: DWORD where
  "ERROR_MORE_DATA = 234"

definition ERROR_IO_PENDING :: DWORD where
  "ERROR_IO_PENDING = 997"

definition PIPE_ACCESS_DUPLEX :: DWORD where
  "PIPE_ACCESS_DUPLEX = 0x00000003"

definition FILE_FLAG_WRITE_THROUGH :: DWORD where
  "FILE_FLAG_WRITE_THROUGH = 0x80000000"

definition FILE_FLAG_OVERLAPPED :: DWORD where
  "FILE_FLAG_OVERLAPPED = 0x40000000"

definition FILE_FLAG_FIRST_PIPE_INSTANCE :: DWORD where
  "FILE_FLAG_FIRST_PIPE_INSTANCE = 0x00080000"

definition PIPE_TYPE_BYTE :: DWORD where
  "PIPE_TYPE_BYTE = 0x00000000"

definition PIPE_TYPE_MESSAGE :: DWORD where
  "PIPE_TYPE_MESSAGE = 0x00000004"

definition PIPE_READMODE_BYTE :: DWORD where
  "PIPE_READMODE_BYTE = 0x00000000"

definition PIPE_READMODE_MESSAGE :: DWORD where
  "PIPE_READMODE_MESSAGE = 0x00000002"

definition PIPE_WAIT :: DWORD where
  "PIPE_WAIT = 0x00000000"

definition GENERIC_READ :: DWORD where
  "GENERIC_READ = 0x80000000"

definition GENERIC_WRITE :: DWORD where
  "GENERIC_WRITE = 0x40000000"

definition OPEN_EXISTING :: DWORD where
  "OPEN_EXISTING = 3"

text \<open>The macros of the file itself (lines 26 to 29).\<close>

definition DEFAULT_BUFFER_SIZE :: DWORD where
  "DEFAULT_BUFFER_SIZE = 65535"

definition DEFAULT_WAIT_TIME :: DWORD where
  "DEFAULT_WAIT_TIME = 100"

definition MAX_PATH_MINUS_PREFIX :: nat where
  "MAX_PATH_MINUS_PREFIX = MAX_PATH - 9"

text \<open>
  The enumerations of \<^verbatim>\<open>named-pipe.hpp\<close> and of the \<^verbatim>\<open>os\<close> namespace, with the
  members the file uses.
\<close>

datatype pipe_type = pipe_type_Byte | pipe_type_Message

datatype pipe_read_mode = pipe_read_mode_Byte | pipe_read_mode_Message

datatype os_error = Success | MoreData | Disconnected | Error

text \<open>
  The exceptions the file can raise. \<open>runtime_error text code\<close> stands for the message
  that \<^verbatim>\<open>sprintf_s\<close> builds from \<open>text\<close> and the native status \<open>code\<close> (printed with
  \<^verbatim>\<open>%lX\<close>); \<open>range_error\<close> is what \<^verbatim>\<open>std::wstring_convert::from_bytes\<close> throws on
  bytes that are not UTF-8.
\<close>

datatype exn =
  invalid_argument string
| runtime_error string DWORD
| range_error

section \<open>Argument validation and name normalization\<close>

definition backslash :: char where
  "backslash = CHR 0x5C"

definition quote :: char where
  "quote = CHR 0x27"

text \<open>
  \<^verbatim>\<open>TOSTRING(MAX_PATH_MINUS_PREFIX)\<close> expands its argument before stringifying it, which
  gives the text \<^verbatim>\<open>(260 - 9)\<close>; \<^verbatim>\<open>TOSTRING(PIPE_UNLIMITED_INSTANCES)\<close> gives
  \<^verbatim>\<open>255\<close>.
\<close>

definition msg_name_empty :: string where
  "msg_name_empty = [quote] @ ''name'' @ [quote] @ '' can'' @ [quote] @ ''t be empty.''"

definition msg_name_too_long :: string where
  "msg_name_too_long =
     [quote] @ ''name'' @ [quote] @ '' can'' @ [quote] @ ''t be longer than ''
     @ ''(260 - 9)'' @ '' characters.''"

definition msg_max_instances_zero :: string where
  "msg_max_instances_zero =
     [quote] @ ''max_instances'' @ [quote] @ '' can'' @ [quote] @ ''t be zero.''"

definition msg_max_instances_too_large :: string where
  "msg_max_instances_too_large =
     [quote] @ ''max_instances'' @ [quote] @ '' can'' @ [quote] @ ''t be greater than ''
     @ ''255''"

definition validate_create_param :: "string \<Rightarrow> nat \<Rightarrow> exn + unit" where
  "validate_create_param name max_instances =
     (if length name = 0 then Inl (invalid_argument msg_name_empty)
      else if length name \<ge> MAX_PATH_MINUS_PREFIX then Inl (invalid_argument msg_name_too_long)
      else if max_instances = 0 then Inl (invalid_argument msg_max_instances_zero)
      else if max_instances > PIPE_UNLIMITED_INSTANCES
        then Inl (invalid_argument msg_max_instances_too_large)
      else Inr ())"

definition validate_open_param :: "string \<Rightarrow> exn + unit" where
  "validate_open_param name =
     (if length name = 0 then Inl (invalid_argument msg_name_empty)
      else if length name \<ge> MAX_PATH_MINUS_PREFIX then Inl (invalid_argument msg_name_too_long)
      else Inr ())"

text \<open>The literal \<^verbatim>\<open>"\\\\.\\pipe\\"\<close> of line 63: nine characters.\<close>

definition pipe_prefix :: string where
  "pipe_prefix = [backslash, backslash, CHR ''.'', backslash] @ ''pipe'' @ [backslash]"

text \<open>The loop of lines 58 to 62, over a copy of the name.\<close>

definition replace_backslashes :: "string \<Rightarrow> string" where
  "replace_backslashes out = map (\<lambda>v. if v = backslash then CHR ''/'' else v) out"

definition make_windows_compatible :: "string \<Rightarrow> string" where
  "make_windows_compatible name = pipe_prefix @ replace_backslashes name"

section \<open>The operating system\<close>

text \<open>
  The native primitives are not code of the repository. Every call the file makes is a
  value of \<open>os_call\<close>, carrying the arguments that the file computes; the operating
  system is a function that answers a call with what the primitive returns (a \<^verbatim>\<open>HANDLE\<close>,
  or a \<^verbatim>\<open>BOOL\<close> widened, 0 for \<^verbatim>\<open>FALSE\<close>), the \<^verbatim>\<open>DWORD\<close> it leaves in the variable
  behind the one non-null out-pointer (which the file initialises to 0), and the value
  that \<^verbatim>\<open>GetLastError()\<close> reports after the call, given that the file has just reset it
  with \<^verbatim>\<open>SetLastError(ERROR_SUCCESS)\<close>. Every operation of the model returns, next to
  its result, the list of native calls it has made, in order.
\<close>

datatype peek_out = TotalBytesAvail | BytesLeftThisMessage

datatype os_call =
  CreateNamedPipeW wstring DWORD DWORD DWORD DWORD DWORD DWORD
| CreateFileW wstring DWORD DWORD DWORD DWORD
| DisconnectNamedPipe HANDLE
| CloseHandle HANDLE
| PeekNamedPipe HANDLE peek_out
| ReadFileEx HANDLE DWORD
| WriteFileEx HANDLE string DWORD

record native_result =
  returned :: "64 word"
  out_dword :: DWORD
  last_error :: DWORD

type_synonym os = "os_call \<Rightarrow> native_result"

text \<open>
  The test \<^verbatim>\<open>!f(...) || (GetLastError() != ERROR_SUCCESS)\<close> that follows every native
  call whose result the file looks at.
\<close>

definition failed :: "native_result \<Rightarrow> bool" where
  "failed res = (returned res = 0 \<or> last_error res \<noteq> ERROR_SUCCESS)"

text \<open>
  \<open>make_wide_string\<close> (lines 31 to 34) hands the text to the standard library's
  converter, here the parameter \<open>from_bytes\<close>; \<open>None\<close> is the converter's failure, on
  which it throws.
\<close>

definition make_wide_string :: "(string \<Rightarrow> wstring option) \<Rightarrow> string \<Rightarrow> exn + wstring" where
  "make_wide_string from_bytes text =
     (case from_bytes text of None \<Rightarrow> Inl range_error | Some w \<Rightarrow> Inr w)"

section \<open>Construction and destruction\<close>

record named_pipe =
  handle :: HANDLE

definition msg_create_failed :: string where
  "msg_create_failed = ''Creating Named Pipe failed with error code ''"

definition msg_open_failed :: string where
  "msg_open_failed = ''Opening Named Pipe failed with error code ''"

text \<open>
  \<open>create_logic\<close> and \<open>open_logic\<close> are declared to return \<^verbatim>\<open>bool\<close>, and neither has a
  return statement: they either throw or reach their closing brace. The model returns
  the handle they have stored through their reference parameter, and no boolean.
\<close>

definition create_logic ::
  "os \<Rightarrow> wstring \<Rightarrow> nat \<Rightarrow> pipe_type \<Rightarrow> pipe_read_mode \<Rightarrow> bool \<Rightarrow> (exn + HANDLE) \<times> os_call list"
where
  "create_logic os name max_instances type mode is_unique =
     (let pipe_open_mode0 = PIPE_ACCESS_DUPLEX OR FILE_FLAG_WRITE_THROUGH OR FILE_FLAG_OVERLAPPED;
          pipe_open_mode =
            (if is_unique then pipe_open_mode0 OR FILE_FLAG_FIRST_PIPE_INSTANCE
             else pipe_open_mode0);
          pipe_type =
            (case type of pipe_type_Message \<Rightarrow> PIPE_TYPE_MESSAGE | _ \<Rightarrow> PIPE_TYPE_BYTE);
          pipe_read_mode =
            (case mode of pipe_read_mode_Message \<Rightarrow> PIPE_READMODE_MESSAGE
             | _ \<Rightarrow> PIPE_READMODE_BYTE);
          call = CreateNamedPipeW name pipe_open_mode (pipe_type OR pipe_read_mode OR PIPE_WAIT)
                   (of_nat max_instances) DEFAULT_BUFFER_SIZE DEFAULT_BUFFER_SIZE
                   DEFAULT_WAIT_TIME;
          res = os call
      in if failed res then (Inl (runtime_error msg_create_failed (last_error res)), [call])
         else (Inr (returned res), [call]))"

definition open_logic :: "os \<Rightarrow> wstring \<Rightarrow> pipe_read_mode \<Rightarrow> (exn + HANDLE) \<times> os_call list" where
  "open_logic os name mode =
     (let call = CreateFileW name (GENERIC_READ OR GENERIC_WRITE) 0 OPEN_EXISTING
                   FILE_FLAG_OVERLAPPED;
          res = os call
      in if failed res then (Inl (runtime_error msg_open_failed (last_error res)), [call])
         else (Inr (returned res), [call]))"

text \<open>
  The three constructors. An exception leaves no object: the result is \<open>Inl\<close>. The name
  that reaches the converter is \<^verbatim>\<open>name + '\0'\<close>, normalized.
\<close>

definition named_pipe_create_only ::
  "(string \<Rightarrow> wstring option) \<Rightarrow> os \<Rightarrow> string \<Rightarrow> nat \<Rightarrow> pipe_type \<Rightarrow> pipe_read_mode \<Rightarrow> bool
     \<Rightarrow> (exn + named_pipe) \<times> os_call list"
where
  "named_pipe_create_only from_bytes os name max_instances type mode is_unique =
     (case validate_create_param name max_instances of
        Inl e \<Rightarrow> (Inl e, [])
      | Inr _ \<Rightarrow>
         (case make_wide_string from_bytes (make_windows_compatible (name @ [CHR 0x00])) of
            Inl e \<Rightarrow> (Inl e, [])
          | Inr wide_name \<Rightarrow>
             (case create_logic os wide_name max_instances type mode is_unique of
                (Inl e, calls) \<Rightarrow> (Inl e, calls)
              | (Inr h, calls) \<Rightarrow> (Inr \<lparr>handle = h\<rparr>, calls))))"

text \<open>
  In the second constructor the test \<^verbatim>\<open>if (!create_logic(...))\<close> reads the boolean
  that \<open>create_logic\<close> never returns. What the test sees when \<open>create_logic\<close> has not
  thrown is not fixed by the source; it is the parameter \<open>indeterminate\<close>.
\<close>

definition named_pipe_create_or_open ::
  "(string \<Rightarrow> wstring option) \<Rightarrow> os \<Rightarrow> bool \<Rightarrow> string \<Rightarrow> nat \<Rightarrow> pipe_type \<Rightarrow> pipe_read_mode
     \<Rightarrow> bool \<Rightarrow> (exn + named_pipe) \<times> os_call list"
where
  "named_pipe_create_or_open from_bytes os indeterminate name max_instances type mode is_unique =
     (case validate_create_param name max_instances of
        Inl e \<Rightarrow> (Inl e, [])
      | Inr _ \<Rightarrow>
         (case make_wide_string from_bytes (make_windows_compatible (name @ [CHR 0x00])) of
            Inl e \<Rightarrow> (Inl e, [])
          | Inr wide_name \<Rightarrow>
             (case create_logic os wide_name max_instances type mode is_unique of
                (Inl e, calls) \<Rightarrow> (Inl e, calls)
              | (Inr h, calls) \<Rightarrow>
                 if \<not> indeterminate then
                   (case open_logic os wide_name mode of
                      (Inl e, calls') \<Rightarrow> (Inl e, calls @ calls')
                    | (Inr h', calls') \<Rightarrow> (Inr \<lparr>handle = h'\<rparr>, calls @ calls'))
                 else (Inr \<lparr>handle = h\<rparr>, calls))))"

definition named_pipe_open_only ::
  "(string \<Rightarrow> wstring option) \<Rightarrow> os \<Rightarrow> string \<Rightarrow> pipe_read_mode
     \<Rightarrow> (exn + named_pipe) \<times> os_call list"
where
  "named_pipe_open_only from_bytes os name mode =
     (case validate_open_param name of
        Inl e \<Rightarrow> (Inl e, [])
      | Inr _ \<Rightarrow>
         (case make_wide_string from_bytes (make_windows_compatible (name @ [CHR 0x00])) of
            Inl e \<Rightarrow> (Inl e, [])
          | Inr wide_name \<Rightarrow>
             (case open_logic os wide_name mode of
                (Inl e, calls) \<Rightarrow> (Inl e, calls)
              | (Inr h, calls) \<Rightarrow> (Inr \<lparr>handle = h\<rparr>, calls))))"

text \<open>
  The destructor looks at the result of neither native call, so it does not depend on
  the operating system's answers; it cannot throw.
\<close>

definition destructor :: "named_pipe \<Rightarrow> os_call list" where
  "destructor this =
     (if handle this \<noteq> NULL then [DisconnectNamedPipe (handle this), CloseHandle (handle this)]
      else [])"

section \<open>Data availability\<close>

text \<open>
  \<open>available\<close> and \<open>total_available\<close> are declared to return \<^verbatim>\<open>os::error\<close>. Their two
  failure branches return a value; after \<^verbatim>\<open>avail = bytes;\<close> control reaches the closing
  brace with no return statement, which is the result \<open>None\<close>. The out-parameter is
  modelled by its value before the call (an argument) and after it (in the result).
\<close>

definition available :: "os \<Rightarrow> named_pipe \<Rightarrow> nat \<Rightarrow> os_error option \<times> nat \<times> os_call list" where
  "available os this avail =
     (let call = PeekNamedPipe (handle this) BytesLeftThisMessage;
          res = os call;
          bytes = out_dword res
      in if failed res then
           (if last_error res = ERROR_BROKEN_PIPE then (Some Disconnected, avail, [call])
            else (Some Error, avail, [call]))
         else (None, unat bytes, [call]))"

definition total_available :: "os \<Rightarrow> named_pipe \<Rightarrow> nat \<Rightarrow> os_error option \<times> nat \<times> os_call list" where
  "total_available os this avail =
     (let call = PeekNamedPipe (handle this) TotalBytesAvail;
          res = os call;
          bytes = out_dword res
      in if failed res then
           (if last_error res = ERROR_BROKEN_PIPE then (Some Disconnected, avail, [call])
            else (Some Error, avail, [call]))
         else (None, unat bytes, [call]))"

section \<open>Asynchronous read and write\<close>

text \<open>
  Modelled from the spec: the class \<^verbatim>\<open>os::windows::async_request\<close> is declared and
  defined outside this file, which only calls its constructor, \<^verbatim>\<open>set_handle\<close>,
  \<^verbatim>\<open>get_overlapped_pointer\<close>, \<^verbatim>\<open>cancel\<close> and \<^verbatim>\<open>set_valid\<close>. The spec gives a
  request the handle it operates on, a completion descriptor and a validity flag that
  is ``true once an operation has been submitted and not yet resolved/cancelled'': a new
  request is not valid, rebinding the handle changes the handle only, and cancelling
  leaves the request not valid. \<^verbatim>\<open>get_overlapped_pointer\<close> hands out the address of
  the completion descriptor, which the record does not represent; the call itself is
  recorded. The record adds the history of the member calls made on the request, oldest
  first, so that what \<open>read\<close> and \<open>write_pipe\<close> call, and in which order, can be
  stated. Native calls that the members make themselves are not part of the lists of
  calls that \<open>read\<close> and \<open>write_pipe\<close> return.
\<close>

datatype request_call =
  rq_set_handle HANDLE
| rq_get_overlapped_pointer
| rq_set_valid bool
| rq_cancel

record async_request =
  rq_handle :: HANDLE
  valid :: bool
  history :: "request_call list"

definition new_async_request :: "HANDLE \<Rightarrow> async_request" where
  "new_async_request h = \<lparr>rq_handle = h, valid = False, history = []\<rparr>"

definition set_handle :: "HANDLE \<Rightarrow> async_request \<Rightarrow> async_request" where
  "set_handle h r = r\<lparr>rq_handle := h, history := history r @ [rq_set_handle h]\<rparr>"

definition get_overlapped_pointer :: "async_request \<Rightarrow> async_request" where
  "get_overlapped_pointer r = r\<lparr>history := history r @ [rq_get_overlapped_pointer]\<rparr>"

definition set_valid :: "bool \<Rightarrow> async_request \<Rightarrow> async_request" where
  "set_valid b r = r\<lparr>valid := b, history := history r @ [rq_set_valid b]\<rparr>"

definition cancel :: "async_request \<Rightarrow> async_request" where
  "cancel r = r\<lparr>valid := False, history := history r @ [rq_cancel]\<rparr>"

text \<open>
  \<open>read\<close> and \<open>write_pipe\<close> (the member \<^verbatim>\<open>write\<close>) take the caller's
  \<^verbatim>\<open>unique_ptr\<close> (\<open>None\<close> when empty) and return the outcome, the request the pointer
  holds afterwards and the native calls. The argument
  \<^verbatim>\<open>request->get_overlapped_pointer()\<close> of the native call is evaluated before the
  call is made. The buffer of \<open>read\<close> is filled by the operating system later and is
  not modelled.
\<close>

definition read ::
  "os \<Rightarrow> named_pipe \<Rightarrow> async_request option \<Rightarrow> nat \<Rightarrow> os_error \<times> async_request \<times> os_call list"
where
  "read os this request buffer_length =
     (let request1 = (case request of None \<Rightarrow> new_async_request (handle this) | Some r \<Rightarrow> r);
          request2 = set_handle (handle this) request1;
          request3 = get_overlapped_pointer request2;
          call = ReadFileEx (handle this) (of_nat buffer_length);
          res = os call
      in if failed res then
           (let error = last_error res
            in if error = ERROR_MORE_DATA then (MoreData, request3, [call])
               else if error = ERROR_BROKEN_PIPE then (Disconnected, request3, [call])
               else if error \<noteq> ERROR_IO_PENDING then (Error, cancel request3, [call])
               else (Success, set_valid True request3, [call]))
         else (Success, set_valid True request3, [call]))"

definition write_pipe ::
  "os \<Rightarrow> named_pipe \<Rightarrow> async_request option \<Rightarrow> string \<Rightarrow> nat
     \<Rightarrow> os_error \<times> async_request \<times> os_call list"
where
  "write_pipe os this request buffer buffer_length =
     (let request1 = (case request of None \<Rightarrow> new_async_request (handle this) | Some r \<Rightarrow> r);
          request2 = set_handle (handle this) request1;
          request3 = get_overlapped_pointer request2;
          call = WriteFileEx (handle this) buffer (of_nat buffer_length);
          res = os call
      in if failed res then
           (let error = last_error res
            in if error = ERROR_MORE_DATA then (MoreData, request3, [call])
               else if error = ERROR_BROKEN_PIPE then (Disconnected, request3, [call])
               else if error \<noteq> ERROR_IO_PENDING then (Error, cancel request3, [call])
               else (Success, set_valid True request3, [call]))
         else (Success, set_valid True request3, [call]))"

section \<open>Example environments\<close>

text \<open>
  Concrete converters and operating systems, for evaluating the operations. On 7-bit
  text, which is all the examples use, the converter widens every byte to one 16-bit
  unit.
\<close>

definition example_from_bytes :: "string \<Rightarrow> wstring option" where
  "example_from_bytes text = Some (map of_char text)"

text \<open>An operating system that gives the same answer to every call.\<close>

definition os_always :: "native_result \<Rightarrow> os" where
  "os_always res call = res"

text \<open>
  The name is held by another process as a unique instance: creating a further instance
  is refused (\<^verbatim>\<open>INVALID_HANDLE_VALUE\<close>, status 5, \<^verbatim>\<open>ERROR_ACCESS_DENIED\<close>), opening the
  existing one succeeds with the handle \<^verbatim>\<open>0x1C4\<close>.
\<close>

definition os_name_held :: os where
  "os_name_held call =
     (case call of
        CreateNamedPipeW _ _ _ _ _ _ _ \<Rightarrow> \<lparr>returned = - 1, out_dword = 0, last_error = 5\<rparr>
      | CreateFileW _ _ _ _ _ \<Rightarrow> \<lparr>returned = 0x1C4, out_dword = 0, last_error = 0\<rparr>
      | _ \<Rightarrow> \<lparr>returned = 0, out_dword = 0, last_error = 6\<rparr>)"

text \<open>
  A submission that completes at once and reports excess data: the primitive returns
  \<^verbatim>\<open>TRUE\<close> and the status is \<^verbatim>\<open>ERROR_MORE_DATA\<close>.
\<close>

definition os_more_data :: os where
  "os_more_data = os_always \<lparr>returned = 1, out_dword = 0, last_error = 234\<rparr>"

text \<open>The peer has gone: every call fails with \<^verbatim>\<open>ERROR_BROKEN_PIPE\<close>.\<close>

definition os_broken_pipe :: os where
  "os_broken_pipe = os_always \<lparr>returned = 0, out_dword = 0, last_error = 109\<rparr>"

text \<open>Every call fails with status 6, \<^verbatim>\<open>ERROR_INVALID_HANDLE\<close>.\<close>

definition os_invalid_handle :: os where
  "os_invalid_handle = os_always \<lparr>returned = 0, out_dword = 0, last_error = 6\<rparr>"

text \<open>A freshly connected endpoint with nothing buffered: the peek succeeds with 0 bytes.\<close>

definition os_empty_pipe :: os where
  "os_empty_pipe = os_always \<lparr>returned = 1, out_dword = 0, last_error = 0\<rparr>"

definition example_pipe :: named_pipe where
  "example_pipe = \<lparr>handle = 0x1C4\<rparr>"

definition null_pipe :: named_pipe where
  "null_pipe = \<lparr>handle = NULL\<rparr>"

text \<open>
  A request that has served an earlier operation on another handle and is handed in
  again after that operation has been resolved.
\<close>

definition reused_request :: async_request where
  "reused_request =
     \<lparr>rq_handle = 0x2A0, valid = False,
      history = [rq_set_handle 0x2A0, rq_get_overlapped_pointer, rq_set_valid True]\<rparr>"

section \<open>Facts about the constants and the helpers\<close>

lemmas platform_defs = MAX_PATH_def MAX_PATH_MINUS_PREFIX_def PIPE_UNLIMITED_INSTANCES_def

lemmas status_defs =
  ERROR_SUCCESS_def ERROR_BROKEN_PIPE_def ERROR_MORE_DATA_def ERROR_IO_PENDING_def

lemmas flag_defs =
  PIPE_ACCESS_DUPLEX_def FILE_FLAG_WRITE_THROUGH_def FILE_FLAG_OVERLAPPED_def
  FILE_FLAG_FIRST_PIPE_INSTANCE_def PIPE_TYPE_BYTE_def PIPE_TYPE_MESSAGE_def
  PIPE_READMODE_BYTE_def PIPE_READMODE_MESSAGE_def PIPE_WAIT_def GENERIC_READ_def
  GENERIC_WRITE_def OPEN_EXISTING_def DEFAULT_BUFFER_SIZE_def DEFAULT_WAIT_TIME_def

lemma more_data_failed: "last_error res = ERROR_MORE_DATA \<Longrightarrow> failed res"
  by (simp add: failed_def status_defs)

lemma broken_pipe_failed: "last_error res = ERROR_BROKEN_PIPE \<Longrightarrow> failed res"
  by (simp add: failed_def status_defs)

lemma broken_pipe_not_more_data: "ERROR_BROKEN_PIPE \<noteq> ERROR_MORE_DATA"
  by (simp add: status_defs)

section \<open>Name validation\<close>

text \<open>
  What the two validation routines accept: a name of 1 to \<open>MAX_PATH - 10\<close> characters
  (and, on creation, an instance count of 1 to \<open>PIPE_UNLIMITED_INSTANCES\<close>).
\<close>

lemma validate_open_param_accepts:
  "validate_open_param name = Inr () \<longleftrightarrow> 1 \<le> length name \<and> length name + 10 \<le> MAX_PATH"
  by (cases name) (auto simp add: validate_open_param_def platform_defs)

lemma validate_create_param_accepts:
  "validate_create_param name max_instances = Inr () \<longleftrightarrow>
     1 \<le> length name \<and> length name + 10 \<le> MAX_PATH
     \<and> 1 \<le> max_instances \<and> max_instances \<le> PIPE_UNLIMITED_INSTANCES"
  by (cases name) (auto simp add: validate_create_param_def platform_defs)

lemma validate_create_param_rejects:
  "(\<exists>msg. validate_create_param name max_instances = Inl (invalid_argument msg)) \<longleftrightarrow>
     (length name = 0 \<or> MAX_PATH_MINUS_PREFIX \<le> length name
      \<or> max_instances = 0 \<or> PIPE_UNLIMITED_INSTANCES < max_instances)"
  by (simp add: validate_create_param_def)

text \<open>
  C7. Every endpoint name of length 1 up to and including \<open>MAX_PATH - 9\<close> passes
  validation in all three construction modes, and names of length 0 or beyond that
  bound are rejected. The code rejects the name of exactly \<open>MAX_PATH - 9 = 251\<close>
  characters, in \<open>validate_open_param\<close> and in \<open>validate_create_param\<close> alike and so
  in each of the three constructors, before any native call, with the message that the
  name ``can't be longer than (260 - 9) characters'': the guard is \<^verbatim>\<open>>=\<close> where its
  own message says \<^verbatim>\<open>>\<close>.
\<close>

theorem name_of_bound_length_rejected:
  "length (replicate 251 (CHR ''a'')) = MAX_PATH - 9
   \<and> validate_open_param (replicate 251 (CHR ''a'')) = Inl (invalid_argument msg_name_too_long)
   \<and> validate_create_param (replicate 251 (CHR ''a'')) 1
       = Inl (invalid_argument msg_name_too_long)
   \<and> named_pipe_create_only example_from_bytes os_empty_pipe (replicate 251 (CHR ''a'')) 1
         pipe_type_Message pipe_read_mode_Message False
       = (Inl (invalid_argument msg_name_too_long), [])
   \<and> named_pipe_create_or_open example_from_bytes os_empty_pipe indeterminate
         (replicate 251 (CHR ''a'')) 1 pipe_type_Message pipe_read_mode_Message False
       = (Inl (invalid_argument msg_name_too_long), [])
   \<and> named_pipe_open_only example_from_bytes os_empty_pipe (replicate 251 (CHR ''a''))
         pipe_read_mode_Message
       = (Inl (invalid_argument msg_name_too_long), [])"
  by (simp add: validate_open_param_def validate_create_param_def platform_defs
      named_pipe_create_only_def named_pipe_create_or_open_def named_pipe_open_only_def)

section \<open>Name normalization\<close>

lemma replace_backslashes_idem:
  "replace_backslashes (replace_backslashes name) = replace_backslashes name"
  by (simp add: replace_backslashes_def backslash_def)

lemma replace_backslashes_prefix: "replace_backslashes pipe_prefix = ''//./pipe/''"
  by (simp add: replace_backslashes_def pipe_prefix_def backslash_def)

lemma replace_backslashes_append:
  "replace_backslashes (xs @ ys) = replace_backslashes xs @ replace_backslashes ys"
  by (simp add: replace_backslashes_def)

lemma length_replace_backslashes: "length (replace_backslashes name) = length name"
  by (simp add: replace_backslashes_def)

lemma length_pipe_prefix: "length pipe_prefix = 9"
  by (simp add: pipe_prefix_def)

text \<open>
  C6, as amended. Normalization is not idempotent: every application prepends the
  prefix, so normalizing an already normalized name gives the prefix, then the first
  prefix with its backslashes replaced, then the name with its backslashes replaced,
  nine characters more than after one application. What is idempotent is the replacement
  of the separators, and normalization gives the same string on a name and on the name
  whose backslashes are already replaced.
\<close>

theorem normalization_twice:
  "replace_backslashes (replace_backslashes name) = replace_backslashes name
   \<and> make_windows_compatible (replace_backslashes name) = make_windows_compatible name
   \<and> make_windows_compatible (make_windows_compatible name)
       = pipe_prefix @ ''//./pipe/'' @ replace_backslashes name
   \<and> length (make_windows_compatible (make_windows_compatible name))
       = length (make_windows_compatible name) + 9"
  by (simp add: make_windows_compatible_def replace_backslashes_idem replace_backslashes_prefix
      replace_backslashes_append length_replace_backslashes length_pipe_prefix)

text \<open>
  C6, as stated, fails at the valid name \<open>''a''\<close>: normalizing its normalized form
  gives a different string.
\<close>

theorem normalization_idempotent_counterexample:
  "validate_open_param ''a'' = Inr ()
   \<and> make_windows_compatible (make_windows_compatible ''a'') \<noteq> make_windows_compatible ''a''"
proof -
  have "length (make_windows_compatible (make_windows_compatible ''a''))
          \<noteq> length (make_windows_compatible ''a'')"
    by (simp add: make_windows_compatible_def length_replace_backslashes length_pipe_prefix)
  then have "make_windows_compatible (make_windows_compatible ''a'')
               \<noteq> make_windows_compatible ''a''"
    by metis
  moreover have "validate_open_param ''a'' = Inr ()"
    by (simp add: validate_open_param_def platform_defs)
  ultimately show ?thesis by simp
qed

section \<open>Properties of construction\<close>

lemma create_logic_not_invalid_argument:
  "create_logic os w max_instances type mode is_unique \<noteq> (Inl (invalid_argument msg), calls)"
  by (simp add: create_logic_def Let_def)

lemma open_logic_not_invalid_argument:
  "open_logic os w mode \<noteq> (Inl (invalid_argument msg), calls)"
  by (simp add: open_logic_def Let_def)

lemma make_wide_string_not_invalid_argument:
  "make_wide_string from_bytes s \<noteq> Inl (invalid_argument msg)"
  by (simp add: make_wide_string_def split: option.splits)

lemma create_only_invalid_argument_iff:
  "fst (named_pipe_create_only from_bytes os name max_instances type mode is_unique)
       = Inl (invalid_argument msg)
     \<longleftrightarrow> validate_create_param name max_instances = Inl (invalid_argument msg)"
  by (auto simp add: named_pipe_create_only_def create_logic_not_invalid_argument
      make_wide_string_not_invalid_argument split: sum.splits prod.splits)

lemma create_or_open_invalid_argument_iff:
  "fst (named_pipe_create_or_open from_bytes os indeterminate name max_instances type mode
          is_unique) = Inl (invalid_argument msg)
     \<longleftrightarrow> validate_create_param name max_instances = Inl (invalid_argument msg)"
  by (auto simp add: named_pipe_create_or_open_def create_logic_not_invalid_argument
      open_logic_not_invalid_argument make_wide_string_not_invalid_argument
      split: sum.splits prod.splits)

lemma open_only_invalid_argument_iff:
  "fst (named_pipe_open_only from_bytes os name mode) = Inl (invalid_argument msg)
     \<longleftrightarrow> validate_open_param name = Inl (invalid_argument msg)"
  by (auto simp add: named_pipe_open_only_def open_logic_not_invalid_argument
      make_wide_string_not_invalid_argument split: sum.splits prod.splits)

lemma rejected_parameters_no_calls:
  "validate_create_param name max_instances = Inl e \<Longrightarrow>
     snd (named_pipe_create_only from_bytes os name max_instances type mode is_unique) = []
     \<and> snd (named_pipe_create_or_open from_bytes os indeterminate name max_instances type mode
              is_unique) = []"
  by (simp add: named_pipe_create_only_def named_pipe_create_or_open_def)

text \<open>
  With the length condition that the code tests, \<open>MAX_PATH_MINUS_PREFIX \<le> length name\<close>,
  the two creating constructors raise an argument error exactly on the four kinds of
  input that \<open>validate_create_param\<close> rejects, and have then made no native call.
\<close>

lemma argument_error_iff_guard:
  "((\<exists>msg. fst (named_pipe_create_only from_bytes os name max_instances type mode is_unique)
            = Inl (invalid_argument msg))
      \<longleftrightarrow> (length name = 0 \<or> MAX_PATH_MINUS_PREFIX \<le> length name
           \<or> max_instances = 0 \<or> PIPE_UNLIMITED_INSTANCES < max_instances))
   \<and> ((\<exists>msg. fst (named_pipe_create_or_open from_bytes os indeterminate name max_instances
                 type mode is_unique) = Inl (invalid_argument msg))
      \<longleftrightarrow> (length name = 0 \<or> MAX_PATH_MINUS_PREFIX \<le> length name
           \<or> max_instances = 0 \<or> PIPE_UNLIMITED_INSTANCES < max_instances))
   \<and> (length name = 0 \<or> MAX_PATH_MINUS_PREFIX \<le> length name
           \<or> max_instances = 0 \<or> PIPE_UNLIMITED_INSTANCES < max_instances
      \<longrightarrow> snd (named_pipe_create_only from_bytes os name max_instances type mode is_unique) = []
        \<and> snd (named_pipe_create_or_open from_bytes os indeterminate name max_instances
                 type mode is_unique) = [])"
proof -
  let ?bad = "length name = 0 \<or> MAX_PATH_MINUS_PREFIX \<le> length name
           \<or> max_instances = 0 \<or> PIPE_UNLIMITED_INSTANCES < max_instances"
  have only: "(\<exists>msg. fst (named_pipe_create_only from_bytes os name max_instances type mode
                 is_unique) = Inl (invalid_argument msg)) \<longleftrightarrow> ?bad"
    by (simp only: create_only_invalid_argument_iff validate_create_param_rejects)
  have either: "(\<exists>msg. fst (named_pipe_create_or_open from_bytes os indeterminate name
                 max_instances type mode is_unique) = Inl (invalid_argument msg)) \<longleftrightarrow> ?bad"
    by (simp only: create_or_open_invalid_argument_iff validate_create_param_rejects)
  have silent: "?bad \<longrightarrow>
      snd (named_pipe_create_only from_bytes os name max_instances type mode is_unique) = []
      \<and> snd (named_pipe_create_or_open from_bytes os indeterminate name max_instances
               type mode is_unique) = []"
    using rejected_parameters_no_calls validate_create_param_rejects by blast
  from only either silent show ?thesis by blast
qed

text \<open>
  For every name whose length is not exactly \<open>MAX_PATH - 9\<close>, the argument error is
  raised exactly when the name is empty, the name is longer than \<open>MAX_PATH - 9\<close>
  characters, \<open>max_instances\<close> is zero or \<open>max_instances\<close> is greater than
  \<open>PIPE_UNLIMITED_INSTANCES\<close>.
\<close>

lemma argument_error_off_boundary:
  assumes "length name \<noteq> MAX_PATH - 9"
  shows "((\<exists>msg. fst (named_pipe_create_only from_bytes os name max_instances type mode
                 is_unique) = Inl (invalid_argument msg))
      \<longleftrightarrow> (length name = 0 \<or> MAX_PATH - 9 < length name
           \<or> max_instances = 0 \<or> PIPE_UNLIMITED_INSTANCES < max_instances))
   \<and> ((\<exists>msg. fst (named_pipe_create_or_open from_bytes os indeterminate name max_instances
                 type mode is_unique) = Inl (invalid_argument msg))
      \<longleftrightarrow> (length name = 0 \<or> MAX_PATH - 9 < length name
           \<or> max_instances = 0 \<or> PIPE_UNLIMITED_INSTANCES < max_instances))"
proof -
  from assms have "MAX_PATH_MINUS_PREFIX \<le> length name \<longleftrightarrow> MAX_PATH - 9 < length name"
    by (auto simp add: MAX_PATH_MINUS_PREFIX_def)
  then show ?thesis
    by (simp only: create_only_invalid_argument_iff create_or_open_invalid_argument_iff
        validate_create_param_rejects)
qed

text \<open>
  C5. Construction with create-only or create-or-open raises an argument error, before
  any native call, if and only if the name is empty, the name exceeds the length budget
  of \<open>MAX_PATH - 9\<close> characters, \<open>max_instances\<close> is zero or \<open>max_instances\<close> exceeds
  \<open>PIPE_UNLIMITED_INSTANCES\<close>. For the name of exactly \<open>MAX_PATH - 9 = 251\<close> characters
  with \<open>max_instances = 1\<close> none of the four conditions holds, and both constructors
  raise the argument error all the same, without a native call: the guard of line 39 is
  \<^verbatim>\<open>>=\<close> where the message it throws says \<^verbatim>\<open>>\<close>. The defect is the one of C7.
\<close>

theorem argument_error_within_length_budget:
  "\<not> (length (replicate 251 (CHR ''a'')) = 0
       \<or> MAX_PATH - 9 < length (replicate 251 (CHR ''a''))
       \<or> (1::nat) = 0 \<or> PIPE_UNLIMITED_INSTANCES < 1)
   \<and> named_pipe_create_only example_from_bytes os_name_held (replicate 251 (CHR ''a'')) 1
         pipe_type_Byte pipe_read_mode_Byte True
       = (Inl (invalid_argument msg_name_too_long), [])
   \<and> named_pipe_create_or_open example_from_bytes os_name_held indeterminate
         (replicate 251 (CHR ''a'')) 1 pipe_type_Byte pipe_read_mode_Byte True
       = (Inl (invalid_argument msg_name_too_long), [])"
  by (simp add: validate_create_param_def platform_defs named_pipe_create_only_def
      named_pipe_create_or_open_def)

text \<open>
  Whenever create-only throws, create-or-open on the same arguments throws the same
  exception after the same native calls, whatever opening the name would have given:
  \<open>create_logic\<close> reports a failed creation by throwing, so the test in front of
  \<open>open_logic\<close> is never reached.
\<close>

lemma create_or_open_throws_as_create_only:
  "fst (named_pipe_create_only from_bytes os name max_instances type mode is_unique) = Inl e \<Longrightarrow>
     named_pipe_create_or_open from_bytes os indeterminate name max_instances type mode is_unique
       = named_pipe_create_only from_bytes os name max_instances type mode is_unique"
  by (auto simp add: named_pipe_create_or_open_def named_pipe_create_only_def
      split: sum.splits prod.splits)

text \<open>
  C1. For a name that another process holds as a unique instance, create-only fails
  with a runtime error that carries the native status, and create-or-open with the same
  arguments succeeds by opening the existing instance. On \<open>os_name_held\<close> create-only
  fails as stated (status 5), and opening the name succeeds with the handle \<^verbatim>\<open>0x1C4\<close>;
  create-or-open, however, ends with the runtime error of the creation, after the one
  call of \<^verbatim>\<open>CreateNamedPipeW\<close>, and never calls \<^verbatim>\<open>CreateFileW\<close>.
\<close>

theorem create_or_open_propagates_create_failure:
  "fst (named_pipe_create_only example_from_bytes os_name_held ''svc'' 1
          pipe_type_Message pipe_read_mode_Message True)
       = Inl (runtime_error msg_create_failed 5)
   \<and> named_pipe_create_or_open example_from_bytes os_name_held indeterminate ''svc'' 1
          pipe_type_Message pipe_read_mode_Message True
       = (Inl (runtime_error msg_create_failed 5),
          [CreateNamedPipeW (map of_char (make_windows_compatible (''svc'' @ [CHR 0x00])))
             0xC0080003 6 1 65535 65535 100])
   \<and> fst (named_pipe_open_only example_from_bytes os_name_held ''svc'' pipe_read_mode_Message)
       = Inr \<lparr>handle = 0x1C4\<rparr>"
  by (simp add: named_pipe_create_or_open_def named_pipe_create_only_def named_pipe_open_only_def
      validate_create_param_def validate_open_param_def platform_defs make_wide_string_def
      example_from_bytes_def create_logic_def open_logic_def os_name_held_def failed_def
      status_defs flag_defs)

section \<open>Order of destruction\<close>

text \<open>
  C9. The destructor of an endpoint whose handle is not null disconnects the endpoint
  and then releases the handle, in that order and whatever the first call answers; on a
  null handle it makes neither call. It has no other path and raises nothing.
\<close>

theorem destructor_disconnects_then_closes:
  "(handle this \<noteq> NULL \<longrightarrow>
      destructor this = [DisconnectNamedPipe (handle this), CloseHandle (handle this)])
   \<and> (handle this = NULL \<longrightarrow> destructor this = [])"
  by (simp add: destructor_def)

theorem destructor_disconnects_then_closes_witness:
  "destructor example_pipe = [DisconnectNamedPipe 0x1C4, CloseHandle 0x1C4]
   \<and> destructor null_pipe = []"
  using destructor_disconnects_then_closes [of example_pipe]
        destructor_disconnects_then_closes [of null_pipe]
  by (simp add: example_pipe_def null_pipe_def NULL_def)

section \<open>Outcomes of the availability operations\<close>

lemma available_failed:
  "failed (os (PeekNamedPipe (handle this) BytesLeftThisMessage)) \<Longrightarrow>
     available os this avail =
       (Some (if last_error (os (PeekNamedPipe (handle this) BytesLeftThisMessage))
                 = ERROR_BROKEN_PIPE then Disconnected else Error),
        avail, [PeekNamedPipe (handle this) BytesLeftThisMessage])"
  by (simp add: available_def Let_def)

lemma total_available_failed:
  "failed (os (PeekNamedPipe (handle this) TotalBytesAvail)) \<Longrightarrow>
     total_available os this avail =
       (Some (if last_error (os (PeekNamedPipe (handle this) TotalBytesAvail))
                 = ERROR_BROKEN_PIPE then Disconnected else Error),
        avail, [PeekNamedPipe (handle this) TotalBytesAvail])"
  by (simp add: total_available_def Let_def)

text \<open>
  On a peek that succeeds both operations store the count and return no outcome at all.
\<close>

lemma available_succeeded:
  "\<not> failed (os (PeekNamedPipe (handle this) BytesLeftThisMessage)) \<Longrightarrow>
     available os this avail =
       (None, unat (out_dword (os (PeekNamedPipe (handle this) BytesLeftThisMessage))),
        [PeekNamedPipe (handle this) BytesLeftThisMessage])"
  by (simp add: available_def Let_def)

lemma total_available_succeeded:
  "\<not> failed (os (PeekNamedPipe (handle this) TotalBytesAvail)) \<Longrightarrow>
     total_available os this avail =
       (None, unat (out_dword (os (PeekNamedPipe (handle this) TotalBytesAvail))),
        [PeekNamedPipe (handle this) TotalBytesAvail])"
  by (simp add: total_available_def Let_def)

lemma available_never_Success:
  "fst (available os this avail) \<noteq> Some Success
   \<and> fst (total_available os this avail) \<noteq> Some Success"
  by (simp add: available_def total_available_def Let_def)

text \<open>
  C8. When the native peek succeeds, \<open>available\<close> and \<open>total_available\<close> store the
  peeked count in the out-parameter and return \<open>Success\<close>; on a freshly connected
  endpoint with nothing buffered both report 0 with \<open>Success\<close>. On \<open>os_empty_pipe\<close>
  both store 0 (over the 7 the caller had there), and both then reach the end of the
  function without a return statement: the outcome is \<open>None\<close>, not \<open>Some Success\<close>.
\<close>

theorem peek_success_returns_no_outcome:
  "available os_empty_pipe example_pipe 7
     = (None, 0, [PeekNamedPipe 0x1C4 BytesLeftThisMessage])
   \<and> total_available os_empty_pipe example_pipe 7
     = (None, 0, [PeekNamedPipe 0x1C4 TotalBytesAvail])"
  by (simp add: available_def total_available_def os_empty_pipe_def os_always_def failed_def
      example_pipe_def status_defs)

text \<open>
  C10. Whenever \<open>available\<close> or \<open>total_available\<close> returns \<open>Disconnected\<close> or
  \<open>Error\<close>, the caller's out-parameter holds after the call what it held before.
\<close>

theorem peek_failure_leaves_avail:
  "(fst (available os this avail) = Some Disconnected
      \<or> fst (available os this avail) = Some Error
      \<longrightarrow> fst (snd (available os this avail)) = avail)
   \<and> (fst (total_available os this avail) = Some Disconnected
      \<or> fst (total_available os this avail) = Some Error
      \<longrightarrow> fst (snd (total_available os this avail)) = avail)"
  by (simp add: available_def total_available_def Let_def)

theorem peek_failure_leaves_avail_witness:
  "fst (available os_broken_pipe example_pipe 7) = Some Disconnected
   \<and> fst (snd (available os_broken_pipe example_pipe 7)) = 7
   \<and> fst (total_available os_invalid_handle example_pipe 7) = Some Error
   \<and> fst (snd (total_available os_invalid_handle example_pipe 7)) = 7"
proof -
  have gone: "fst (available os_broken_pipe example_pipe 7) = Some Disconnected"
    by (simp add: available_def os_broken_pipe_def os_always_def failed_def status_defs)
  have bad: "fst (total_available os_invalid_handle example_pipe 7) = Some Error"
    by (simp add: total_available_def os_invalid_handle_def os_always_def failed_def
        status_defs)
  from gone bad
    peek_failure_leaves_avail [of os_broken_pipe example_pipe 7]
    peek_failure_leaves_avail [of os_invalid_handle example_pipe 7]
  show ?thesis by simp
qed

section \<open>Outcomes of read and write\<close>

text \<open>
  A submission that succeeds outright, or that the operating system has queued, is the
  one path on which the request is marked valid.
\<close>

lemma read_accepted:
  "\<not> failed (os (ReadFileEx (handle this) (of_nat n)))
     \<or> last_error (os (ReadFileEx (handle this) (of_nat n))) = ERROR_IO_PENDING \<Longrightarrow>
   read os this request n =
     (Success,
      set_valid True (get_overlapped_pointer (set_handle (handle this)
        (case request of None \<Rightarrow> new_async_request (handle this) | Some r \<Rightarrow> r))),
      [ReadFileEx (handle this) (of_nat n)])"
  by (auto simp add: read_def Let_def status_defs)

lemma write_accepted:
  "\<not> failed (os (WriteFileEx (handle this) buffer (of_nat n)))
     \<or> last_error (os (WriteFileEx (handle this) buffer (of_nat n))) = ERROR_IO_PENDING \<Longrightarrow>
   write_pipe os this request buffer n =
     (Success,
      set_valid True (get_overlapped_pointer (set_handle (handle this)
        (case request of None \<Rightarrow> new_async_request (handle this) | Some r \<Rightarrow> r))),
      [WriteFileEx (handle this) buffer (of_nat n)])"
  by (auto simp add: write_pipe_def Let_def status_defs)

text \<open>
  C2, as amended. When the native submission of a read or of a write reports the
  more-data status, the call returns \<open>MoreData\<close> and does not mark the request valid:
  the member calls it has made on the request are \<open>set_handle\<close> and
  \<open>get_overlapped_pointer\<close>, \<open>set_valid\<close> is not among them, and a request that the
  call itself has constructed is not valid on return.
\<close>

theorem more_data_does_not_mark_valid:
  "(last_error (os (ReadFileEx (handle this) (of_nat n))) = ERROR_MORE_DATA \<longrightarrow>
      read os this request n =
        (MoreData,
         get_overlapped_pointer (set_handle (handle this)
           (case request of None \<Rightarrow> new_async_request (handle this) | Some r \<Rightarrow> r)),
         [ReadFileEx (handle this) (of_nat n)])
      \<and> history (fst (snd (read os this request n)))
          = (case request of None \<Rightarrow> [] | Some r \<Rightarrow> history r)
            @ [rq_set_handle (handle this), rq_get_overlapped_pointer]
      \<and> \<not> valid (fst (snd (read os this None n))))
   \<and> (last_error (os (WriteFileEx (handle this) buffer (of_nat n))) = ERROR_MORE_DATA \<longrightarrow>
      write_pipe os this request buffer n =
        (MoreData,
         get_overlapped_pointer (set_handle (handle this)
           (case request of None \<Rightarrow> new_async_request (handle this) | Some r \<Rightarrow> r)),
         [WriteFileEx (handle this) buffer (of_nat n)])
      \<and> history (fst (snd (write_pipe os this request buffer n)))
          = (case request of None \<Rightarrow> [] | Some r \<Rightarrow> history r)
            @ [rq_set_handle (handle this), rq_get_overlapped_pointer]
      \<and> \<not> valid (fst (snd (write_pipe os this None buffer n))))"
  by (simp add: read_def write_pipe_def Let_def more_data_failed set_handle_def
      get_overlapped_pointer_def new_async_request_def split: option.splits)

theorem more_data_does_not_mark_valid_witness:
  "fst (read os_more_data example_pipe None 16) = MoreData
   \<and> history (fst (snd (read os_more_data example_pipe None 16)))
       = [rq_set_handle 0x1C4, rq_get_overlapped_pointer]
   \<and> \<not> valid (fst (snd (read os_more_data example_pipe None 16)))
   \<and> fst (write_pipe os_more_data example_pipe (Some reused_request) ''ping'' 4) = MoreData
   \<and> history (fst (snd (write_pipe os_more_data example_pipe (Some reused_request) ''ping'' 4)))
       = [rq_set_handle 0x2A0, rq_get_overlapped_pointer, rq_set_valid True,
          rq_set_handle 0x1C4, rq_get_overlapped_pointer]
   \<and> \<not> valid (fst (snd (write_pipe os_more_data example_pipe None ''ping'' 4)))"
  using more_data_does_not_mark_valid
          [where os = os_more_data and this = example_pipe and n = 16 and request = None
             and buffer = "''ping''"]
        more_data_does_not_mark_valid
          [where os = os_more_data and this = example_pipe and n = 4
             and request = "Some reused_request" and buffer = "''ping''"]
  by (simp add: os_more_data_def os_always_def status_defs example_pipe_def reused_request_def
      set_handle_def get_overlapped_pointer_def new_async_request_def)

text \<open>
  C2, as stated, fails on \<open>os_more_data\<close> with an empty request pointer: the read and
  the write return \<open>MoreData\<close>, \<open>set_valid\<close> has not been called on the request they
  leave behind, and that request is not valid.
\<close>

theorem more_data_marks_valid_counterexample:
  "fst (read os_more_data example_pipe None 16) = MoreData
   \<and> history (fst (snd (read os_more_data example_pipe None 16)))
       = [rq_set_handle 0x1C4, rq_get_overlapped_pointer]
   \<and> \<not> valid (fst (snd (read os_more_data example_pipe None 16)))
   \<and> fst (write_pipe os_more_data example_pipe None ''ping'' 4) = MoreData
   \<and> history (fst (snd (write_pipe os_more_data example_pipe None ''ping'' 4)))
       = [rq_set_handle 0x1C4, rq_get_overlapped_pointer]
   \<and> \<not> valid (fst (snd (write_pipe os_more_data example_pipe None ''ping'' 4)))"
  by (simp add: read_def write_pipe_def os_more_data_def os_always_def failed_def status_defs
      set_handle_def get_overlapped_pointer_def new_async_request_def example_pipe_def)

text \<open>
  C3. When the native submission of a read or of a write fails with a status other than
  more-data, broken-pipe and queued-pending, the call cancels the request and returns
  \<open>Error\<close>: the member calls it has made on the request are \<open>set_handle\<close>,
  \<open>get_overlapped_pointer\<close> and then \<open>cancel\<close>, \<open>set_valid\<close> is not among them, and
  the request is not valid afterwards.
\<close>

theorem other_failure_cancels_request:
  "(failed (os (ReadFileEx (handle this) (of_nat n)))
      \<and> last_error (os (ReadFileEx (handle this) (of_nat n))) \<noteq> ERROR_MORE_DATA
      \<and> last_error (os (ReadFileEx (handle this) (of_nat n))) \<noteq> ERROR_BROKEN_PIPE
      \<and> last_error (os (ReadFileEx (handle this) (of_nat n))) \<noteq> ERROR_IO_PENDING \<longrightarrow>
      read os this request n =
        (Error,
         cancel (get_overlapped_pointer (set_handle (handle this)
           (case request of None \<Rightarrow> new_async_request (handle this) | Some r \<Rightarrow> r))),
         [ReadFileEx (handle this) (of_nat n)])
      \<and> history (fst (snd (read os this request n)))
          = (case request of None \<Rightarrow> [] | Some r \<Rightarrow> history r)
            @ [rq_set_handle (handle this), rq_get_overlapped_pointer, rq_cancel]
      \<and> \<not> valid (fst (snd (read os this request n))))
   \<and> (failed (os (WriteFileEx (handle this) buffer (of_nat n)))
      \<and> last_error (os (WriteFileEx (handle this) buffer (of_nat n))) \<noteq> ERROR_MORE_DATA
      \<and> last_error (os (WriteFileEx (handle this) buffer (of_nat n))) \<noteq> ERROR_BROKEN_PIPE
      \<and> last_error (os (WriteFileEx (handle this) buffer (of_nat n))) \<noteq> ERROR_IO_PENDING \<longrightarrow>
      write_pipe os this request buffer n =
        (Error,
         cancel (get_overlapped_pointer (set_handle (handle this)
           (case request of None \<Rightarrow> new_async_request (handle this) | Some r \<Rightarrow> r))),
         [WriteFileEx (handle this) buffer (of_nat n)])
      \<and> history (fst (snd (write_pipe os this request buffer n)))
          = (case request of None \<Rightarrow> [] | Some r \<Rightarrow> history r)
            @ [rq_set_handle (handle this), rq_get_overlapped_pointer, rq_cancel]
      \<and> \<not> valid (fst (snd (write_pipe os this request buffer n))))"
  by (simp add: read_def write_pipe_def Let_def set_handle_def get_overlapped_pointer_def
      cancel_def new_async_request_def split: option.splits)

theorem other_failure_cancels_request_witness:
  "read os_invalid_handle example_pipe
       (Some \<lparr>rq_handle = 0x1C4, valid = True, history = []\<rparr>) 16
     = (Error,
        \<lparr>rq_handle = 0x1C4, valid = False,
           history = [rq_set_handle 0x1C4, rq_get_overlapped_pointer, rq_cancel]\<rparr>,
        [ReadFileEx 0x1C4 16])
   \<and> write_pipe os_invalid_handle example_pipe None ''ping'' 4
     = (Error,
        \<lparr>rq_handle = 0x1C4, valid = False,
           history = [rq_set_handle 0x1C4, rq_get_overlapped_pointer, rq_cancel]\<rparr>,
        [WriteFileEx 0x1C4 ''ping'' 4])"
  using other_failure_cancels_request
          [of os_invalid_handle example_pipe 16
              "Some \<lparr>rq_handle = 0x1C4, valid = True, history = []\<rparr>" "''ping''"]
        other_failure_cancels_request [of os_invalid_handle example_pipe 4 None "''ping''"]
  by (simp add: os_invalid_handle_def os_always_def failed_def status_defs example_pipe_def
      set_handle_def get_overlapped_pointer_def cancel_def new_async_request_def)

text \<open>
  C4. In each of \<open>available\<close>, \<open>total_available\<close>, \<open>read\<close> and \<open>write_pipe\<close>, the
  native broken-pipe status gives the outcome \<open>Disconnected\<close> and not \<open>Error\<close>, and
  \<open>Disconnected\<close> is the outcome of nothing else.
\<close>

theorem broken_pipe_yields_disconnected:
  "(last_error (os (PeekNamedPipe (handle this) BytesLeftThisMessage)) = ERROR_BROKEN_PIPE \<longrightarrow>
      fst (available os this avail) = Some Disconnected
      \<and> fst (available os this avail) \<noteq> Some Error)
   \<and> (last_error (os (PeekNamedPipe (handle this) TotalBytesAvail)) = ERROR_BROKEN_PIPE \<longrightarrow>
      fst (total_available os this avail) = Some Disconnected
      \<and> fst (total_available os this avail) \<noteq> Some Error)
   \<and> (last_error (os (ReadFileEx (handle this) (of_nat n))) = ERROR_BROKEN_PIPE \<longrightarrow>
      fst (read os this request n) = Disconnected
      \<and> fst (read os this request n) \<noteq> Error)
   \<and> (last_error (os (WriteFileEx (handle this) buffer (of_nat n))) = ERROR_BROKEN_PIPE \<longrightarrow>
      fst (write_pipe os this request buffer n) = Disconnected
      \<and> fst (write_pipe os this request buffer n) \<noteq> Error)
   \<and> (fst (available os this avail) = Some Disconnected \<longrightarrow>
      last_error (os (PeekNamedPipe (handle this) BytesLeftThisMessage)) = ERROR_BROKEN_PIPE)
   \<and> (fst (total_available os this avail) = Some Disconnected \<longrightarrow>
      last_error (os (PeekNamedPipe (handle this) TotalBytesAvail)) = ERROR_BROKEN_PIPE)
   \<and> (fst (read os this request n) = Disconnected \<longrightarrow>
      last_error (os (ReadFileEx (handle this) (of_nat n))) = ERROR_BROKEN_PIPE)
   \<and> (fst (write_pipe os this request buffer n) = Disconnected \<longrightarrow>
      last_error (os (WriteFileEx (handle this) buffer (of_nat n))) = ERROR_BROKEN_PIPE)"
  using broken_pipe_failed [of "os (PeekNamedPipe (handle this) BytesLeftThisMessage)"]
        broken_pipe_failed [of "os (PeekNamedPipe (handle this) TotalBytesAvail)"]
        broken_pipe_failed [of "os (ReadFileEx (handle this) (of_nat n))"]
        broken_pipe_failed [of "os (WriteFileEx (handle this) buffer (of_nat n))"]
  by (auto simp add: available_def total_available_def read_def write_pipe_def Let_def
      broken_pipe_not_more_data)

theorem broken_pipe_yields_disconnected_witness:
  "fst (available os_broken_pipe example_pipe 7) = Some Disconnected
   \<and> fst (total_available os_broken_pipe example_pipe 7) = Some Disconnected
   \<and> fst (read os_broken_pipe example_pipe None 16) = Disconnected
   \<and> fst (write_pipe os_broken_pipe example_pipe None ''ping'' 4) = Disconnected"
  using broken_pipe_yields_disconnected
          [where os = os_broken_pipe and this = example_pipe and avail = 7 and n = 16
             and request = None and buffer = "''ping''"]
        broken_pipe_yields_disconnected
          [where os = os_broken_pipe and this = example_pipe and avail = 7 and n = 4
             and request = None and buffer = "''ping''"]
  by (simp add: os_broken_pipe_def os_always_def status_defs)

end
